theory Spec2Isabelle
  imports Complex_Main "HOL-Library.Sublist"
begin

section \<open>Python values used by \<open>ytmusicapi/auth/oauth.py\<close>\<close>

text \<open>
  The token record, the provider's responses and the headers file are JSON objects.
  Their fields are scalars (strings, integers, booleans, null); JSON floats and nested
  arrays or objects do not occur in them and are outside this model. Strings are ASCII:
  \<open>length\<close> then counts what Python's \<open>len\<close> counts.
\<close>

datatype jval = JNull | JBool bool | JInt int | JStr string

type_synonym token = "string \<rightharpoonup> jval"

text \<open>What \<open>await response.json()\<close> can yield: an object, or any other JSON document.\<close>

datatype json = JObject token | JOther

text \<open>
  The exceptions of the module. \<open>ClientError\<close> is a failure of \<open>session.post\<close>,
  \<open>JSONError\<close> a failure of \<open>response.json()\<close>. \<open>PendingError\<close> is the
  distinguished error the specification names for an unfinished authorization; no
  statement of the source raises it.
\<close>

datatype error =
    KeyError string
  | TypeError
  | ValueError
  | AttributeError
  | OSError
  | ClientError
  | JSONError
  | KeyboardInterrupt
  | PendingError

subsection \<open>\<open>str\<close>, \<open>int\<close> and \<open>str.lower\<close>\<close>

definition digit_char :: "nat \<Rightarrow> char" where
  "digit_char n = char_of (48 + n)"

fun nat_digits :: "nat \<Rightarrow> string" where
  "nat_digits n =
     (if n < 10 then [digit_char n] else nat_digits (n div 10) @ [digit_char (n mod 10)])"

declare nat_digits.simps [simp del]

text \<open>\<open>str(i)\<close> for an integer \<open>i\<close>.\<close>

definition str_int :: "int \<Rightarrow> string" where
  "str_int i = (if i < 0 then CHR ''-'' # nat_digits (nat (- i)) else nat_digits (nat i))"

text \<open>How an f-string renders a value: \<open>format(v, '')\<close>, which is \<open>str(v)\<close>.\<close>

fun py_str :: "jval \<Rightarrow> string" where
  "py_str (JStr s) = s"
| "py_str (JInt i) = str_int i"
| "py_str (JBool b) = (if b then ''True'' else ''False'')"
| "py_str JNull = ''None''"

definition is_space :: "char \<Rightarrow> bool" where
  "is_space c = ((of_char c :: nat) \<in> {9, 10, 11, 12, 13, 28, 29, 30, 31, 32})"

definition is_digit :: "char \<Rightarrow> bool" where
  "is_digit c = (48 \<le> (of_char c :: nat) \<and> (of_char c :: nat) \<le> 57)"

definition digit_val :: "char \<Rightarrow> nat" where
  "digit_val c = of_char c - 48"

definition strip :: "string \<Rightarrow> string" where
  "strip s = rev (dropWhile is_space (rev (dropWhile is_space s)))"

text \<open>
  The digits after the first one: a single underscore is allowed between two digits.
\<close>

fun parse_digits :: "nat \<Rightarrow> string \<Rightarrow> nat option" where
  "parse_digits acc [] = Some acc"
| "parse_digits acc [c] = (if is_digit c then Some (10 * acc + digit_val c) else None)"
| "parse_digits acc (c # d # ds) =
     (if is_digit c then parse_digits (10 * acc + digit_val c) (d # ds)
      else if c = CHR ''_'' \<and> is_digit d then parse_digits (10 * acc + digit_val d) ds
      else None)"

text \<open>
  \<open>int(s)\<close> for a string: surrounding whitespace is dropped, then an optional sign and
  decimal digits. (The interpreter's optional limit on the number of digits is not
  modelled.)
\<close>

definition int_of_str :: "string \<Rightarrow> error + int" where
  "int_of_str s =
     (let t = strip s;
          (sign, body) =
            (case t of
               [] \<Rightarrow> (1, t)
             | c # r \<Rightarrow> if c = CHR ''-'' then (- 1, r) else if c = CHR ''+'' then (1, r) else (1, t))
      in case body of
           [] \<Rightarrow> Inl ValueError
         | c # cs \<Rightarrow>
             if is_digit c
             then (case parse_digits (digit_val c) cs of
                     None \<Rightarrow> Inl ValueError
                   | Some n \<Rightarrow> Inr (sign * int n))
             else Inl ValueError)"

text \<open>\<open>int(v)\<close> for a JSON value.\<close>

fun py_int :: "jval \<Rightarrow> error + int" where
  "py_int (JInt i) = Inr i"
| "py_int (JBool b) = Inr (if b then 1 else 0)"
| "py_int (JStr s) = int_of_str s"
| "py_int JNull = Inl TypeError"

text \<open>
  \<open>time.time()\<close> is a float; every finite float is a rational number, and the module
  only compares it with integers and truncates it. \<open>int(x)\<close> truncates towards zero.
\<close>

definition int_of_float :: "rat \<Rightarrow> int" where
  "int_of_float x = (if 0 \<le> x then \<lfloor>x\<rfloor> else \<lceil>x\<rceil>)"

text \<open>\<open>v - k\<close> for a JSON value \<open>v\<close> and an integer \<open>k\<close> (\<open>bool\<close> is a subclass of \<open>int\<close>).\<close>

fun py_sub :: "jval \<Rightarrow> int \<Rightarrow> error + int" where
  "py_sub (JInt i) k = Inr (i - k)"
| "py_sub (JBool b) k = Inr ((if b then 1 else 0) - k)"
| "py_sub (JStr s) k = Inl TypeError"
| "py_sub JNull k = Inl TypeError"



section \<open>The case-insensitive dictionary\<close>






section \<open>\<open>is_oauth\<close> and \<open>is_custom_oauth\<close>\<close>





section \<open>The world the module acts on\<close>

text \<open>
  The constants imported from \<open>ytmusicapi.constants\<close> and the baseline headers of
  \<open>ytmusicapi.helpers.initialize_headers\<close> are not part of this module: they are
  parameters of the model.
\<close>

type_synonym headers = "string \<rightharpoonup> string"

record constants =
  OAUTH_CLIENT_ID :: string
  OAUTH_CLIENT_SECRET :: string
  OAUTH_CODE_URL :: string
  OAUTH_SCOPE :: string
  OAUTH_TOKEN_URL :: string
  OAUTH_USER_AGENT :: string
  initialize_headers :: headers

record request =
  req_url :: string
  req_data :: "string \<rightharpoonup> jval"
  req_headers :: headers

text \<open>A response is what its \<open>json()\<close> yields when awaited; \<open>None\<close>: it raises.\<close>

type_synonym response = "json option"

text \<open>What \<open>open(path, mode="w")\<close> leaves behind, and what \<open>json.dump\<close> then writes.\<close>

datatype content = Truncated | Dumped token

text \<open>
  \<open>clock w n\<close> is the \<open>n\<close>-th reading of \<open>time.time()\<close>, \<open>reads\<close> counts the
  readings made. \<open>provider\<close> answers a request given the requests posted before it
  (\<open>None\<close>: the transport raises), \<open>sent\<close> logs the requests posted. \<open>openable\<close>
  tells whether a path can be opened for writing, \<open>files\<close> is the file system.
  \<open>browser\<close> and \<open>console\<close> log the pages opened and the prompts shown;
  \<open>user_aborts\<close> tells whether the user answers the prompt with Ctrl-C.
\<close>

record world =
  clock :: "nat \<Rightarrow> rat"
  reads :: nat
  provider :: "request list \<Rightarrow> request \<Rightarrow> response option"
  sent :: "request list"
  openable :: "string \<Rightarrow> bool"
  files :: "string \<rightharpoonup> content"
  browser :: "string list"
  console :: "string list"
  user_aborts :: bool

subsection \<open>Statements that may raise, over a state\<close>

type_synonym ('s, 'a) io = "'s \<Rightarrow> (error + 'a) \<times> 's"

definition return_io :: "'a \<Rightarrow> ('s, 'a) io" where
  "return_io x s = (Inr x, s)"

definition raise_io :: "error \<Rightarrow> ('s, 'a) io" where
  "raise_io e s = (Inl e, s)"

definition bind_io :: "('s, 'a) io \<Rightarrow> ('a \<Rightarrow> ('s, 'b) io) \<Rightarrow> ('s, 'b) io" where
  "bind_io m f s = (case m s of (Inl e, s') \<Rightarrow> (Inl e, s') | (Inr x, s') \<Rightarrow> f x s')"

definition lift_io :: "error + 'a \<Rightarrow> ('s, 'a) io" where
  "lift_io r = (case r of Inl e \<Rightarrow> raise_io e | Inr x \<Rightarrow> return_io x)"

definition time_time :: "(world, rat) io" where
  "time_time w = (Inr (clock w (reads w)), w\<lparr>reads := Suc (reads w)\<rparr>)"

definition session_post :: "request \<Rightarrow> (world, response) io" where
  "session_post r w =
     (case provider w (sent w) r of
        None \<Rightarrow> (Inl ClientError, w\<lparr>sent := sent w @ [r]\<rparr>)
      | Some resp \<Rightarrow> (Inr resp, w\<lparr>sent := sent w @ [r]\<rparr>))"

definition response_json :: "response \<Rightarrow> ('s, json) io" where
  "response_json resp = (case resp of None \<Rightarrow> raise_io JSONError | Some j \<Rightarrow> return_io j)"

text \<open>\<open>d[k]\<close> on a dict.\<close>

definition getitem :: "token \<Rightarrow> string \<Rightarrow> error + jval" where
  "getitem d k = (case d k of None \<Rightarrow> Inl (KeyError k) | Some v \<Rightarrow> Inr v)"

section \<open>\<open>YTMusicOAuth\<close>\<close>

text \<open>
  The methods \<open>_send_request\<close> and \<open>_parse_token\<close> are \<open>send_request\<close> and
  \<open>parse_token\<close> here.
\<close>

definition send_request :: "constants \<Rightarrow> string \<Rightarrow> (string \<rightharpoonup> jval) \<Rightarrow> (world, response) io" where
  "send_request c url data =
     (let data' = data(''client_id'' \<mapsto> JStr (OAUTH_CLIENT_ID c));
          hdrs = [''User-Agent'' \<mapsto> OAUTH_USER_AGENT c]
      in session_post \<lparr>req_url = url, req_data = data', req_headers = hdrs\<rparr>)"

text \<open>
  An object that is either a dict or a coroutine that was created and not awaited:
  \<open>ResponseJson\<close> for \<open>code_response.json()\<close> in \<open>get_code\<close>,
  \<open>GetTokenFromCode\<close> for \<open>self.get_token_from_code(...)\<close> in \<open>setup\<close>.
\<close>

datatype coroutine = ResponseJson response | GetTokenFromCode jval

datatype pyobj = Dict token | Coroutine coroutine

text \<open>\<open>o[k]\<close>: a coroutine object is not subscriptable.\<close>

fun subscript :: "pyobj \<Rightarrow> string \<Rightarrow> error + jval" where
  "subscript (Dict d) k = getitem d k"
| "subscript (Coroutine _) k = Inl TypeError"

definition get_code :: "constants \<Rightarrow> (world, pyobj) io" where
  "get_code c =
     bind_io (send_request c (OAUTH_CODE_URL c) [''scope'' \<mapsto> JStr (OAUTH_SCOPE c)])
       (\<lambda>code_response.
          let response_json = Coroutine (ResponseJson code_response)
          in return_io response_json)"

definition parse_token :: "response \<Rightarrow> (world, token) io" where
  "parse_token response =
     bind_io (response_json response) (\<lambda>j.
       case j of
         JOther \<Rightarrow> bind_io time_time (\<lambda>_. raise_io TypeError)
       | JObject token \<Rightarrow>
           bind_io time_time (\<lambda>now.
           bind_io (lift_io (getitem token ''expires_in'')) (\<lambda>expires_in.
           bind_io (lift_io (py_int expires_in)) (\<lambda>n.
           return_io (token(''expires_at'' \<mapsto> JInt (int_of_float now + n)))))))"

definition get_token_from_code :: "constants \<Rightarrow> jval \<Rightarrow> (world, token) io" where
  "get_token_from_code c device_code =
     bind_io
       (send_request c (OAUTH_TOKEN_URL c)
          [''client_secret'' \<mapsto> JStr (OAUTH_CLIENT_SECRET c),
           ''grant_type'' \<mapsto> JStr ''http://oauth.net/grant_type/device/1.0'',
           ''code'' \<mapsto> device_code])
       parse_token"

definition refresh_token :: "constants \<Rightarrow> jval \<Rightarrow> (world, token) io" where
  "refresh_token c rt =
     bind_io
       (send_request c (OAUTH_TOKEN_URL c)
          [''client_secret'' \<mapsto> JStr (OAUTH_CLIENT_SECRET c),
           ''grant_type'' \<mapsto> JStr ''refresh_token'',
           ''refresh_token'' \<mapsto> rt])
       parse_token"

text \<open>
  \<open>json.dump\<close> of a dict of scalars writes the whole object; of a coroutine object it
  raises \<open>TypeError\<close> before anything is written, the file having been truncated by
  \<open>open\<close>.
\<close>

definition dump_token :: "pyobj \<Rightarrow> string option \<Rightarrow> (world, unit) io" where
  "dump_token token filepath w =
     (case filepath of
        None \<Rightarrow> (Inr (), w)
      | Some p \<Rightarrow>
          if p = [] \<or> length p > 255 then (Inr (), w)
          else if \<not> openable w p then (Inl OSError, w)
          else (case token of
                  Dict d \<Rightarrow> (Inr (), w\<lparr>files := (files w)(p \<mapsto> Dumped d)\<rparr>)
                | Coroutine _ \<Rightarrow> (Inl TypeError, w\<lparr>files := (files w)(p \<mapsto> Truncated)\<rparr>)))"

definition webbrowser_open :: "string \<Rightarrow> (world, unit) io" where
  "webbrowser_open url w = (Inr (), w\<lparr>browser := browser w @ [url]\<rparr>)"

definition input :: "string \<Rightarrow> (world, unit) io" where
  "input prompt w =
     (if user_aborts w then (Inl KeyboardInterrupt, w\<lparr>console := console w @ [prompt]\<rparr>)
      else (Inr (), w\<lparr>console := console w @ [prompt]\<rparr>))"

text \<open>The method \<open>YTMusicOAuth.setup\<close>.\<close>

definition setup_flow :: "constants \<Rightarrow> string option \<Rightarrow> bool \<Rightarrow> (world, pyobj) io" where
  "setup_flow c filepath open_browser =
     bind_io (get_code c) (\<lambda>code.
     bind_io (lift_io (subscript code ''verification_url'')) (\<lambda>verification_url.
     bind_io (lift_io (subscript code ''user_code'')) (\<lambda>user_code.
       let url = py_str verification_url @ ''?user_code='' @ py_str user_code
       in
     bind_io (if open_browser then webbrowser_open url else return_io ()) (\<lambda>_.
     bind_io (input (''Go to '' @ url @
                '', finish the login flow and press Enter when done, Ctrl-C to abort'')) (\<lambda>_.
     bind_io (lift_io (subscript code ''device_code'')) (\<lambda>device_code.
       let token = Coroutine (GetTokenFromCode device_code)
       in
     bind_io (dump_token token filepath) (\<lambda>_.
     return_io token)))))))"

text \<open>
  \<open>load_headers\<close> mutates the caller's dict: its state is the token together with the
  world.
\<close>

definition on_world :: "(world, 'a) io \<Rightarrow> (token \<times> world, 'a) io" where
  "on_world m s = (case m (snd s) of (r, w') \<Rightarrow> (r, (fst s, w')))"

definition token_getitem :: "string \<Rightarrow> (token \<times> world, jval) io" where
  "token_getitem k s = (case getitem (fst s) k of Inl e \<Rightarrow> (Inl e, s) | Inr v \<Rightarrow> (Inr v, s))"

definition token_update :: "token \<Rightarrow> (token \<times> world, unit) io" where
  "token_update new s = (Inr (), (fst s ++ new, snd s))"

definition token_dump :: "string option \<Rightarrow> (token \<times> world, unit) io" where
  "token_dump filepath s = on_world (dump_token (Dict (fst s)) filepath) s"

definition load_headers :: "constants \<Rightarrow> string option \<Rightarrow> (token \<times> world, headers) io" where
  "load_headers c filepath =
     (let hdrs = initialize_headers c in
      bind_io (on_world time_time) (\<lambda>now.
      bind_io (token_getitem ''expires_at'') (\<lambda>expires_at.
      bind_io (lift_io (py_sub expires_at 3600)) (\<lambda>limit.
      bind_io
        (if of_int limit < now
         then bind_io (token_getitem ''refresh_token'') (\<lambda>rt.
              bind_io (on_world (refresh_token c rt)) (\<lambda>new.
              bind_io (token_update new) (\<lambda>_.
              token_dump filepath)))
         else return_io ()) (\<lambda>_.
      bind_io (token_getitem ''token_type'') (\<lambda>token_type.
      bind_io (token_getitem ''access_token'') (\<lambda>access_token.
      bind_io (on_world time_time) (\<lambda>now2.
      return_io
        (hdrs(''Authorization'' \<mapsto> py_str token_type @ '' '' @ py_str access_token,
              ''Content-Type'' \<mapsto> ''application/json'',
              ''X-Goog-Request-Time'' \<mapsto> str_int (int_of_float now2)))))))))))"

section \<open>Requests and example inputs\<close>

text \<open>The requests that \<open>get_token_from_code\<close> and \<open>refresh_token\<close> post.\<close>

definition exchange_request :: "constants \<Rightarrow> jval \<Rightarrow> request" where
  "exchange_request c device_code =
     \<lparr>req_url = OAUTH_TOKEN_URL c,
      req_data = [''client_secret'' \<mapsto> JStr (OAUTH_CLIENT_SECRET c),
                  ''grant_type'' \<mapsto> JStr ''http://oauth.net/grant_type/device/1.0'',
                  ''code'' \<mapsto> device_code,
                  ''client_id'' \<mapsto> JStr (OAUTH_CLIENT_ID c)],
      req_headers = [''User-Agent'' \<mapsto> OAUTH_USER_AGENT c]\<rparr>"

definition refresh_request :: "constants \<Rightarrow> jval \<Rightarrow> request" where
  "refresh_request c rt =
     \<lparr>req_url = OAUTH_TOKEN_URL c,
      req_data = [''client_secret'' \<mapsto> JStr (OAUTH_CLIENT_SECRET c),
                  ''grant_type'' \<mapsto> JStr ''refresh_token'',
                  ''refresh_token'' \<mapsto> rt,
                  ''client_id'' \<mapsto> JStr (OAUTH_CLIENT_ID c)],
      req_headers = [''User-Agent'' \<mapsto> OAUTH_USER_AGENT c]\<rparr>"

definition ex_constants :: constants where
  "ex_constants =
     \<lparr>OAUTH_CLIENT_ID = ''client'', OAUTH_CLIENT_SECRET = ''secret'',
      OAUTH_CODE_URL = ''https://provider.example/device/code'', OAUTH_SCOPE = ''scope'',
      OAUTH_TOKEN_URL = ''https://provider.example/token'', OAUTH_USER_AGENT = ''agent'',
      initialize_headers = [''accept'' \<mapsto> ''*/*'']\<rparr>"

text \<open>A world whose clock reads 1000 and whose provider answers every request with \<open>body\<close>.\<close>

definition world_answering :: "json \<Rightarrow> world" where
  "world_answering body =
     \<lparr>clock = (\<lambda>_. 1000), reads = 0, provider = (\<lambda>_ _. Some (Some body)), sent = [],
      openable = (\<lambda>_. True), files = Map.empty, browser = [], console = [],
      user_aborts = False\<rparr>"

definition refresh_body :: token where
  "refresh_body =
     [''access_token'' \<mapsto> JStr ''A2'', ''expires_in'' \<mapsto> JInt 3600,
      ''token_type'' \<mapsto> JStr ''Bearer'']"

text \<open>A token response that carries an \<open>expires_at\<close> of the provider's own.\<close>

definition wire_body :: token where
  "wire_body =
     [''access_token'' \<mapsto> JStr ''A2'', ''expires_in'' \<mapsto> JInt 3600,
      ''token_type'' \<mapsto> JStr ''Bearer'', ''expires_at'' \<mapsto> JInt 1]"

definition pending_body :: token where
  "pending_body =
     [''error'' \<mapsto> JStr ''authorization_pending'',
      ''error_description'' \<mapsto> JStr ''Precondition Required'']"

definition device_body :: token where
  "device_body =
     [''device_code'' \<mapsto> JStr ''D1'', ''user_code'' \<mapsto> JStr ''U1'',
      ''verification_url'' \<mapsto> JStr ''https://example.com/device'']"

text \<open>A token record that expires at \<open>expires_at\<close>.\<close>

definition token_expiring :: "int \<Rightarrow> token" where
  "token_expiring expires_at =
     [''access_token'' \<mapsto> JStr ''A1'', ''refresh_token'' \<mapsto> JStr ''R1'',
      ''token_type'' \<mapsto> JStr ''Bearer'', ''expires_in'' \<mapsto> JInt 3600,
      ''expires_at'' \<mapsto> JInt expires_at]"

section \<open>Properties\<close>

lemmas io_defs = bind_io_def return_io_def raise_io_def lift_io_def on_world_def time_time_def
  token_getitem_def token_update_def token_dump_def getitem_def

subsection \<open>Lookups in the example inputs\<close>

lemma refresh_body_lookups:
  "refresh_body ''expires_in'' = Some (JInt 3600)"
  "refresh_body ''access_token'' = Some (JStr ''A2'')"
  "refresh_body ''token_type'' = Some (JStr ''Bearer'')"
  "refresh_body ''refresh_token'' = None"
  by (simp_all add: refresh_body_def)

lemma token_expiring_lookups:
  "token_expiring e ''expires_at'' = Some (JInt e)"
  "token_expiring e ''refresh_token'' = Some (JStr ''R1'')"
  "token_expiring e ''access_token'' = Some (JStr ''A1'')"
  "token_expiring e ''token_type'' = Some (JStr ''Bearer'')"
  by (simp_all add: token_expiring_def)

lemma world_answering_simps:
  "clock (world_answering b) k = 1000"
  "reads (world_answering b) = 0"
  "sent (world_answering b) = []"
  "provider (world_answering b) s q = Some (Some b)"
  "files (world_answering b) = Map.empty"
  "openable (world_answering b) p"
  by (simp_all add: world_answering_def)

lemma pending_body_lookups:
  "pending_body ''expires_in'' = None"
  "pending_body ''error'' = Some (JStr ''authorization_pending'')"
  by (simp_all add: pending_body_def)

subsection \<open>Persisting a token\<close>




subsection \<open>Headers from a token that needs no refresh\<close>

text \<open>
  Claim C5. For every token record and every current time with
  \<open>now < expires_at - 3600\<close>, \<open>load_headers\<close> posts no request: \<open>refresh_token\<close>
  is never called.
\<close>

theorem load_headers_fresh_never_refreshes:
  assumes "token ''expires_at'' = Some (JInt expires_at)"
    and "clock w (reads w) < of_int (expires_at - 3600)"
  shows "sent (snd (snd (load_headers c filepath (token, w)))) = sent w"
  using assms by (simp add: load_headers_def io_defs split: option.splits)

theorem load_headers_fresh_never_refreshes_witness:
  "token_expiring 10000 ''expires_at'' = Some (JInt 10000)
   \<and> clock (world_answering (JObject refresh_body)) (reads (world_answering (JObject refresh_body)))
       < of_int (10000 - 3600)
   \<and> sent (snd (snd (load_headers ex_constants (Some ''oauth.json'')
        (token_expiring 10000, world_answering (JObject refresh_body))))) = []"
  using load_headers_fresh_never_refreshes
    [of "token_expiring 10000" 10000 "world_answering (JObject refresh_body)" ex_constants
      "Some ''oauth.json''"]
  by (simp add: token_expiring_def world_answering_def)

text \<open>
  Claim C9. For every token record and every current time at which \<open>load_headers\<close>
  does not refresh (\<open>now \<le> expires_at - 3600\<close>), the caller's record is left as it
  was, nothing is written to the file system and no request is posted: apart from the
  count of clock readings the world is unchanged. With a token type and an access token
  in the record, the result is the headers map built from them.
\<close>

theorem load_headers_without_refresh_frame:
  assumes "token ''expires_at'' = Some (JInt expires_at)"
    and "clock w (reads w) \<le> of_int (expires_at - 3600)"
  shows "fst (snd (load_headers c filepath (token, w))) = token
     \<and> files (snd (snd (load_headers c filepath (token, w)))) = files w
     \<and> sent (snd (snd (load_headers c filepath (token, w)))) = sent w
     \<and> (snd (snd (load_headers c filepath (token, w))))\<lparr>reads := reads w\<rparr> = w
     \<and> (\<forall>tt a. token ''token_type'' = Some tt \<and> token ''access_token'' = Some a \<longrightarrow>
          fst (load_headers c filepath (token, w)) =
            Inr ((initialize_headers c)
              (''Authorization'' \<mapsto> py_str tt @ '' '' @ py_str a,
               ''Content-Type'' \<mapsto> ''application/json'',
               ''X-Goog-Request-Time'' \<mapsto> str_int (int_of_float (clock w (Suc (reads w)))))))"
  using assms by (simp add: load_headers_def io_defs split: option.splits)

theorem load_headers_without_refresh_frame_witness:
  "token_expiring 4600 ''expires_at'' = Some (JInt 4600)
   \<and> clock (world_answering (JObject refresh_body)) (reads (world_answering (JObject refresh_body)))
       \<le> of_int (4600 - 3600)
   \<and> fst (snd (load_headers ex_constants (Some ''oauth.json'')
        (token_expiring 4600, world_answering (JObject refresh_body)))) = token_expiring 4600
   \<and> files (snd (snd (load_headers ex_constants (Some ''oauth.json'')
        (token_expiring 4600, world_answering (JObject refresh_body))))) = Map.empty
   \<and> sent (snd (snd (load_headers ex_constants (Some ''oauth.json'')
        (token_expiring 4600, world_answering (JObject refresh_body))))) = []
   \<and> fst (load_headers ex_constants (Some ''oauth.json'')
        (token_expiring 4600, world_answering (JObject refresh_body))) =
       Inr ((initialize_headers ex_constants)
             (''Authorization'' \<mapsto> ''Bearer A1'',
              ''Content-Type'' \<mapsto> ''application/json'',
              ''X-Goog-Request-Time'' \<mapsto> ''1000''))"
proof -
  let ?w = "world_answering (JObject refresh_body)"
  have n: "clock ?w (reads ?w) \<le> of_int (4600 - 3600)"
    by (simp add: world_answering_simps)
  have t: "str_int (int_of_float (clock ?w (Suc (reads ?w)))) = ''1000''"
    unfolding world_answering_simps by code_simp
  from load_headers_without_refresh_frame [where token = "token_expiring 4600" and expires_at = 4600 and w = ?w
      and c = ex_constants and filepath = "Some ''oauth.json''",
      OF token_expiring_lookups(1) n] n t
  show ?thesis
    by (simp add: token_expiring_lookups world_answering_simps)
qed

subsection \<open>Token requests\<close>

lemma parse_token_Inr:
  assumes "parse_token resp w = (Inr tok, w')"
  shows "\<exists>body v n. resp = Some (JObject body) \<and> body ''expires_in'' = Some v
           \<and> py_int v = Inr n
           \<and> tok = body(''expires_at'' \<mapsto> JInt (int_of_float (clock w (reads w)) + n))
           \<and> w' = w\<lparr>reads := Suc (reads w)\<rparr>"
  using assms
  by (auto simp add: parse_token_def response_json_def io_defs
      split: option.splits json.splits sum.splits)

lemma parse_token_accepts:
  assumes "body ''expires_in'' = Some v" and "py_int v = Inr n"
  shows "parse_token (Some (JObject body)) w =
     (Inr (body(''expires_at'' \<mapsto> JInt (int_of_float (clock w (reads w)) + n))),
      w\<lparr>reads := Suc (reads w)\<rparr>)"
  using assms by (simp add: parse_token_def response_json_def io_defs)

lemma parse_token_frame:
  "files (snd (parse_token resp w)) = files w \<and> sent (snd (parse_token resp w)) = sent w"
  by (auto simp add: parse_token_def response_json_def io_defs
      split: option.splits json.splits sum.splits)

lemma refresh_token_eq:
  "refresh_token c rt w =
     (case provider w (sent w) (refresh_request c rt) of
        None \<Rightarrow> (Inl ClientError, w\<lparr>sent := sent w @ [refresh_request c rt]\<rparr>)
      | Some resp \<Rightarrow> parse_token resp (w\<lparr>sent := sent w @ [refresh_request c rt]\<rparr>))"
  by (simp add: refresh_token_def send_request_def session_post_def bind_io_def
      refresh_request_def split: option.splits)

lemma get_token_from_code_eq:
  "get_token_from_code c device_code w =
     (case provider w (sent w) (exchange_request c device_code) of
        None \<Rightarrow> (Inl ClientError, w\<lparr>sent := sent w @ [exchange_request c device_code]\<rparr>)
      | Some resp \<Rightarrow>
          parse_token resp (w\<lparr>sent := sent w @ [exchange_request c device_code]\<rparr>))"
  by (simp add: get_token_from_code_def send_request_def session_post_def bind_io_def
      exchange_request_def split: option.splits)

lemma refresh_token_frame:
  "files (snd (refresh_token c rt w)) = files w
   \<and> sent (snd (refresh_token c rt w)) = sent w @ [refresh_request c rt]"
  by (simp add: refresh_token_eq parse_token_frame split: option.splits)

lemma refresh_token_Inr:
  assumes "refresh_token c rt w = (Inr new, w')"
  shows "\<exists>body v n. provider w (sent w) (refresh_request c rt) = Some (Some (JObject body))
           \<and> body ''expires_in'' = Some v \<and> py_int v = Inr n
           \<and> new = body(''expires_at'' \<mapsto> JInt (int_of_float (clock w (reads w)) + n))
           \<and> w' = w\<lparr>sent := sent w @ [refresh_request c rt], reads := Suc (reads w)\<rparr>"
  using assms by (auto simp add: refresh_token_eq split: option.splits dest!: parse_token_Inr)

lemma get_token_from_code_Inr:
  assumes "get_token_from_code c device_code w = (Inr tok, w')"
  shows "\<exists>body v n.
           provider w (sent w) (exchange_request c device_code) = Some (Some (JObject body))
           \<and> body ''expires_in'' = Some v \<and> py_int v = Inr n
           \<and> tok = body(''expires_at'' \<mapsto> JInt (int_of_float (clock w (reads w)) + n))"
  using assms
  by (auto simp add: get_token_from_code_eq split: option.splits dest!: parse_token_Inr)

text \<open>
  Claim C6. Whenever \<open>_parse_token\<close> accepts a response, on the code exchange or on a
  refresh, the body is a JSON object whose \<open>expires_in\<close> converts to an integer
  \<open>n\<close>, and the record returned is the body with \<open>expires_at\<close> set to the clock
  reading taken on receipt, in whole seconds, plus \<open>n\<close>; a value of \<open>expires_at\<close>
  sent by the provider is overwritten.
\<close>

theorem parse_token_stamps_expires_at:
  "(parse_token resp w = (Inr tok, w') \<longrightarrow>
      (\<exists>body v n. resp = Some (JObject body) \<and> body ''expires_in'' = Some v
         \<and> py_int v = Inr n
         \<and> tok = body(''expires_at'' \<mapsto> JInt (int_of_float (clock w (reads w)) + n))
         \<and> tok ''expires_at'' = Some (JInt (int_of_float (clock w (reads w)) + n))))
   \<and> (get_token_from_code c x w = (Inr tok, w') \<longrightarrow>
      (\<exists>body v n. provider w (sent w) (exchange_request c x) = Some (Some (JObject body))
         \<and> body ''expires_in'' = Some v \<and> py_int v = Inr n
         \<and> tok = body(''expires_at'' \<mapsto> JInt (int_of_float (clock w (reads w)) + n))
         \<and> tok ''expires_at'' = Some (JInt (int_of_float (clock w (reads w)) + n))))
   \<and> (refresh_token c x w = (Inr tok, w') \<longrightarrow>
      (\<exists>body v n. provider w (sent w) (refresh_request c x) = Some (Some (JObject body))
         \<and> body ''expires_in'' = Some v \<and> py_int v = Inr n
         \<and> tok = body(''expires_at'' \<mapsto> JInt (int_of_float (clock w (reads w)) + n))
         \<and> tok ''expires_at'' = Some (JInt (int_of_float (clock w (reads w)) + n))))"
proof (intro conjI impI)
  assume "parse_token resp w = (Inr tok, w')"
  from parse_token_Inr [OF this] show
    "\<exists>body v n. resp = Some (JObject body) \<and> body ''expires_in'' = Some v
       \<and> py_int v = Inr n
       \<and> tok = body(''expires_at'' \<mapsto> JInt (int_of_float (clock w (reads w)) + n))
       \<and> tok ''expires_at'' = Some (JInt (int_of_float (clock w (reads w)) + n))"
    by auto
next
  assume "get_token_from_code c x w = (Inr tok, w')"
  from get_token_from_code_Inr [OF this] show
    "\<exists>body v n. provider w (sent w) (exchange_request c x) = Some (Some (JObject body))
       \<and> body ''expires_in'' = Some v \<and> py_int v = Inr n
       \<and> tok = body(''expires_at'' \<mapsto> JInt (int_of_float (clock w (reads w)) + n))
       \<and> tok ''expires_at'' = Some (JInt (int_of_float (clock w (reads w)) + n))"
    by auto
next
  assume "refresh_token c x w = (Inr tok, w')"
  from refresh_token_Inr [OF this] show
    "\<exists>body v n. provider w (sent w) (refresh_request c x) = Some (Some (JObject body))
       \<and> body ''expires_in'' = Some v \<and> py_int v = Inr n
       \<and> tok = body(''expires_at'' \<mapsto> JInt (int_of_float (clock w (reads w)) + n))
       \<and> tok ''expires_at'' = Some (JInt (int_of_float (clock w (reads w)) + n))"
    by auto
qed

theorem parse_token_stamps_expires_at_witness:
  "fst (parse_token (Some (JObject wire_body)) (world_answering (JObject wire_body)))
     = Inr (wire_body(''expires_at'' \<mapsto> JInt 4600))
   \<and> fst (get_token_from_code ex_constants (JStr ''D1'') (world_answering (JObject wire_body)))
     = Inr (wire_body(''expires_at'' \<mapsto> JInt 4600))
   \<and> fst (refresh_token ex_constants (JStr ''R1'') (world_answering (JObject wire_body)))
     = Inr (wire_body(''expires_at'' \<mapsto> JInt 4600))"
proof -
  let ?w = "world_answering (JObject wire_body)"
  have ei: "wire_body ''expires_in'' = Some (JInt 3600)"
    by (simp add: wire_body_def)
  have now: "int_of_float (clock ?w (reads ?w)) = 1000"
    by (simp add: world_answering_def int_of_float_def)
  have pi: "py_int (JInt 3600) = Inr 3600" by simp
  note acc = parse_token_accepts [of wire_body "JInt 3600" 3600, OF ei pi]
  obtain t0 w0 where p: "parse_token (Some (JObject wire_body)) ?w = (Inr t0, w0)"
    using acc by blast
  obtain t1 w1 where g: "get_token_from_code ex_constants (JStr ''D1'') ?w = (Inr t1, w1)"
    using acc
    by (simp add: get_token_from_code_eq world_answering_def)
  obtain t2 w2 where r: "refresh_token ex_constants (JStr ''R1'') ?w = (Inr t2, w2)"
    using acc
    by (simp add: refresh_token_eq world_answering_def)
  have prov: "provider ?w (sent ?w) q = Some (Some (JObject wire_body))" for q
    by (simp add: world_answering_def)
  note stamp = parse_token_stamps_expires_at
  have "t0 = wire_body(''expires_at'' \<mapsto> JInt 4600)"
    using stamp [of "Some (JObject wire_body)" ?w t0 w0] p ei now by auto
  moreover have "t1 = wire_body(''expires_at'' \<mapsto> JInt 4600)"
    using stamp [of _ ?w t1 w1 ex_constants "JStr ''D1''"] g ei now prov by auto
  moreover have "t2 = wire_body(''expires_at'' \<mapsto> JInt 4600)"
    using stamp [of _ ?w t2 w2 ex_constants "JStr ''R1''"] r ei now prov by auto
  ultimately show ?thesis using p g r by simp
qed

text \<open>
  Claim C7, as stated: a response to the code exchange whose body carries the
  \<open>authorization_pending\<close> error fails with the distinguished \<open>PendingError\<close>.
  The module has no such error: the body has no \<open>expires_in\<close> field, and the failure
  is the \<open>KeyError\<close> of line 51.
\<close>

theorem get_token_from_code_pending_counterexample:
  "fst (get_token_from_code ex_constants (JStr ''D1'') (world_answering (JObject pending_body)))
     = Inl (KeyError ''expires_in'')
   \<and> fst (get_token_from_code ex_constants (JStr ''D1'')
        (world_answering (JObject pending_body))) \<noteq> Inl PendingError"
  by (simp add: get_token_from_code_eq parse_token_def response_json_def io_defs
      world_answering_def pending_body_def)

text \<open>
  Claim C7, amended. For every response to the code exchange whose body carries the
  \<open>authorization_pending\<close> error and no \<open>expires_in\<close> field, the operation fails
  with \<open>KeyError\<close> for \<open>expires_in\<close> and produces no token record.
\<close>

theorem get_token_from_code_pending_raises_KeyError:
  assumes "provider w (sent w) (exchange_request c device_code) = Some (Some (JObject body))"
    and "body ''error'' = Some (JStr ''authorization_pending'')"
    and "body ''expires_in'' = None"
  shows "fst (get_token_from_code c device_code w) = Inl (KeyError ''expires_in'')"
  using assms by (simp add: get_token_from_code_eq parse_token_def response_json_def io_defs)

theorem get_token_from_code_pending_raises_KeyError_witness:
  "provider (world_answering (JObject pending_body)) (sent (world_answering (JObject pending_body)))
       (exchange_request ex_constants (JStr ''D1'')) = Some (Some (JObject pending_body))
   \<and> pending_body ''error'' = Some (JStr ''authorization_pending'')
   \<and> pending_body ''expires_in'' = None
   \<and> fst (get_token_from_code ex_constants (JStr ''D1'')
        (world_answering (JObject pending_body))) = Inl (KeyError ''expires_in'')"
proof -
  have p: "provider (world_answering (JObject pending_body))
      (sent (world_answering (JObject pending_body)))
      (exchange_request ex_constants (JStr ''D1'')) = Some (Some (JObject pending_body))"
    by (simp add: world_answering_def)
  have e: "pending_body ''error'' = Some (JStr ''authorization_pending'')"
    and n: "pending_body ''expires_in'' = None"
    by (simp_all add: pending_body_def)
  from get_token_from_code_pending_raises_KeyError [OF p e n] p e n show ?thesis by simp
qed

subsection \<open>The device flow\<close>

lemma setup_flow_never_returns:
  "fst (setup_flow c filepath open_browser w) \<in> {Inl ClientError, Inl TypeError}"
  by (simp add: setup_flow_def get_code_def send_request_def session_post_def io_defs
      split: option.splits)

text \<open>
  Claim C3. A successful run of the device flow persists the exchanged token record and
  returns it. The method cannot do so: \<open>get_code\<close> returns the coroutine of
  \<open>code_response.json()\<close> without awaiting it, so the subscript of line 85 raises
  \<open>TypeError\<close>. With a location, the default of not opening the browser and a
  provider that answers with a well-formed device code, the run ends in that error and
  no file is written.
\<close>

theorem setup_flow_raises_TypeError:
  "fst (setup_flow ex_constants (Some ''oauth.json'') False
        (world_answering (JObject device_body))) = Inl TypeError
   \<and> files (snd (setup_flow ex_constants (Some ''oauth.json'') False
        (world_answering (JObject device_body)))) = Map.empty"
  by (simp add: setup_flow_def get_code_def send_request_def session_post_def io_defs
      world_answering_def)

subsection \<open>Headers from a token that needs a refresh\<close>

lemma load_headers_refresh_fails:
  assumes "token ''expires_at'' = Some (JInt e)"
    and "of_int (e - 3600) < clock w (reads w)"
    and "token ''refresh_token'' = Some rt"
    and "refresh_token c rt (w\<lparr>reads := Suc (reads w)\<rparr>) = (Inl err, w2)"
  shows "load_headers c filepath (token, w) = (Inl err, (token, w2))"
  using assms by (simp add: load_headers_def io_defs)

lemma load_headers_refresh_ok:
  assumes "token ''expires_at'' = Some (JInt e)"
    and "of_int (e - 3600) < clock w (reads w)"
    and "token ''refresh_token'' = Some rt"
    and "refresh_token c rt (w\<lparr>reads := Suc (reads w)\<rparr>) = (Inr new, w2)"
  shows "load_headers c filepath (token, w) =
     (case dump_token (Dict (token ++ new)) filepath w2 of
        (Inl e, w3) \<Rightarrow> (Inl e, (token ++ new, w3))
      | (Inr _, w3) \<Rightarrow>
        (case (token ++ new) ''token_type'' of
           None \<Rightarrow> (Inl (KeyError ''token_type''), (token ++ new, w3))
         | Some tt \<Rightarrow>
           (case (token ++ new) ''access_token'' of
              None \<Rightarrow> (Inl (KeyError ''access_token''), (token ++ new, w3))
            | Some a \<Rightarrow>
               (Inr ((initialize_headers c)
                   (''Authorization'' \<mapsto> py_str tt @ '' '' @ py_str a,
                    ''Content-Type'' \<mapsto> ''application/json'',
                    ''X-Goog-Request-Time'' \<mapsto> str_int (int_of_float (clock w3 (reads w3))))),
                (token ++ new, w3\<lparr>reads := Suc (reads w3)\<rparr>)))))"
  using assms
  by (simp add: load_headers_def io_defs del: map_add_None map_add_eq_empty_iff
      split: prod.splits sum.splits option.splits)

lemma dump_token_sent: "sent (snd (dump_token t filepath w)) = sent w"
  by (simp add: dump_token_def split: option.splits pyobj.splits)

lemma load_headers_refresh_sent:
  assumes "token ''expires_at'' = Some (JInt e)"
    and "of_int (e - 3600) < clock w (reads w)"
    and "token ''refresh_token'' = Some rt"
  shows "sent (snd (snd (load_headers c filepath (token, w)))) = sent w @ [refresh_request c rt]"
proof -
  let ?w1 = "w\<lparr>reads := Suc (reads w)\<rparr>"
  obtain r w2 where rw: "refresh_token c rt ?w1 = (r, w2)"
    by (cases "refresh_token c rt ?w1")
  have s2: "sent w2 = sent w @ [refresh_request c rt]"
    using refresh_token_frame [of c rt ?w1] rw by simp
  show ?thesis
  proof (cases r)
    case (Inl err)
    with load_headers_refresh_fails [OF assms] rw s2 show ?thesis by simp
  next
    case (Inr new)
    obtain d w3 where dw: "dump_token (Dict (token ++ new)) filepath w2 = (d, w3)"
      by (cases "dump_token (Dict (token ++ new)) filepath w2")
    have "sent w3 = sent w2" using dump_token_sent [of "Dict (token ++ new)" filepath w2] dw by simp
    with Inr load_headers_refresh_ok [OF assms, of c new w2 filepath] rw s2 dw show ?thesis
      by (simp del: map_add_None map_add_eq_empty_iff split: sum.splits option.splits)
  qed
qed

lemma load_headers_refresh_Inr:
  assumes "token ''expires_at'' = Some (JInt e)"
    and "of_int (e - 3600) < clock w (reads w)"
    and "token ''refresh_token'' = Some rt"
    and "load_headers c filepath (token, w) = (Inr h, (token', w'))"
  shows "\<exists>body v n tt a.
      provider w (sent w) (refresh_request c rt) = Some (Some (JObject body))
      \<and> body ''expires_in'' = Some v \<and> py_int v = Inr n
      \<and> token' = token ++ body(''expires_at'' \<mapsto> JInt (int_of_float (clock w (Suc (reads w))) + n))
      \<and> token' ''token_type'' = Some tt \<and> token' ''access_token'' = Some a
      \<and> h ''Authorization'' = Some (py_str tt @ '' '' @ py_str a)"
proof -
  let ?w1 = "w\<lparr>reads := Suc (reads w)\<rparr>"
  obtain r w2 where rw: "refresh_token c rt ?w1 = (r, w2)"
    by (cases "refresh_token c rt ?w1")
  show ?thesis
  proof (cases r)
    case (Inl err)
    with load_headers_refresh_fails [OF assms(1-3)] rw assms(4) show ?thesis by simp
  next
    case (Inr new)
    from refresh_token_Inr [of c rt ?w1 new w2] rw Inr
    obtain body v n where b: "provider w (sent w) (refresh_request c rt) = Some (Some (JObject body))"
      "body ''expires_in'' = Some v" "py_int v = Inr n"
      "new = body(''expires_at'' \<mapsto> JInt (int_of_float (clock w (Suc (reads w))) + n))"
      by auto
    from Inr load_headers_refresh_ok [OF assms(1-3), of c new w2 filepath] rw assms(4)
    have "token' = token ++ new \<and> (\<exists>tt a. token' ''token_type'' = Some tt
        \<and> token' ''access_token'' = Some a
        \<and> h ''Authorization'' = Some (py_str tt @ '' '' @ py_str a))"
      by (auto simp del: map_add_None map_add_eq_empty_iff
          split: prod.splits sum.splits option.splits)
    then obtain tt a where k: "token' = token ++ new" "token' ''token_type'' = Some tt"
      "token' ''access_token'' = Some a"
      "h ''Authorization'' = Some (py_str tt @ '' '' @ py_str a)"
      by (elim conjE exE) (rule that; assumption)
    from k(1) b(4) have m: "token' =
        token ++ body(''expires_at'' \<mapsto> JInt (int_of_float (clock w (Suc (reads w))) + n))"
      by simp
    show ?thesis
      apply (rule exI [of _ body], rule exI [of _ v], rule exI [of _ n])
      apply (rule exI [of _ tt], rule exI [of _ a])
      apply (intro conjI)
      apply (rule b(1), rule b(2), rule b(3), rule m, rule k(2), rule k(3), rule k(4))
      done
  qed
qed

lemma load_headers_scenario:
  "\<exists>h t' w'. load_headers ex_constants filepath
       (token_expiring 2000, world_answering (JObject refresh_body)) = (Inr h, (t', w'))"
proof -
  let ?w = "world_answering (JObject refresh_body)"
  have r: "refresh_token ex_constants (JStr ''R1'') (?w\<lparr>reads := Suc (reads ?w)\<rparr>) =
      (Inr (refresh_body(''expires_at'' \<mapsto> JInt 4600)),
       ?w\<lparr>reads := Suc (reads ?w), sent := sent (?w\<lparr>reads := Suc (reads ?w)\<rparr>) @ [refresh_request ex_constants (JStr ''R1'')],
          reads := Suc (reads (?w\<lparr>reads := Suc (reads ?w)\<rparr>))\<rparr>)"
    using parse_token_accepts [of refresh_body "JInt 3600" 3600]
    by (simp add: refresh_token_eq world_answering_simps refresh_body_lookups int_of_float_def)
  have n: "of_int (2000 - 3600) < clock ?w (reads ?w)"
    by (simp add: world_answering_simps)
  show ?thesis
    using load_headers_refresh_ok [OF token_expiring_lookups(1) n token_expiring_lookups(2) r, of filepath]
    by (simp add: dump_token_def map_add_def refresh_body_lookups token_expiring_lookups
        world_answering_simps split: option.splits)
qed

text \<open>
  Claim C1, as stated: whenever \<open>now \<ge> expires_at - 3600\<close>, \<open>load_headers\<close> calls
  \<open>refresh_token\<close> once and builds the Authorization header from the refreshed access
  token. The test of line 96 is strict: at \<open>now = expires_at - 3600\<close> no request is
  posted and the header carries the old access token.
\<close>

theorem load_headers_boundary_counterexample:
  "of_int (4600 - 3600) \<le> clock (world_answering (JObject refresh_body)) (reads (world_answering (JObject refresh_body)))
   \<and> sent (snd (snd (load_headers ex_constants None (token_expiring 4600, world_answering (JObject refresh_body))))) = []
   \<and> (\<exists>h. fst (load_headers ex_constants None (token_expiring 4600, world_answering (JObject refresh_body))) = Inr h
        \<and> h ''Authorization'' = Some ''Bearer A1'')"
  by (simp add: load_headers_def io_defs token_expiring_def world_answering_def)

text \<open>
  Claim C1, amended. For every token record (with its \<open>expires_at\<close> and
  \<open>refresh_token\<close> fields) and every current time with \<open>now > expires_at - 3600\<close>,
  \<open>load_headers\<close> posts the refresh request exactly once; and when it returns headers,
  the provider answered with a token body, the caller's record is the old record
  overwritten by that body and its new \<open>expires_at\<close>, and the Authorization header is
  built from the token type and access token of that merged record, the access token
  being the one of the response whenever the response carries one.
\<close>

theorem load_headers_refreshes_once_past_window:
  assumes "token ''expires_at'' = Some (JInt expires_at)"
    and "of_int (expires_at - 3600) < clock w (reads w)"
    and "token ''refresh_token'' = Some rt"
    and "load_headers c filepath (token, w) = (res, (token', w'))"
  shows "sent w' = sent w @ [refresh_request c rt]
     \<and> (\<forall>h. res = Inr h \<longrightarrow>
          (\<exists>body v n tt a.
             provider w (sent w) (refresh_request c rt) = Some (Some (JObject body))
             \<and> body ''expires_in'' = Some v \<and> py_int v = Inr n
             \<and> token' = token ++
                  body(''expires_at'' \<mapsto> JInt (int_of_float (clock w (Suc (reads w))) + n))
             \<and> token' ''token_type'' = Some tt \<and> token' ''access_token'' = Some a
             \<and> h ''Authorization'' = Some (py_str tt @ '' '' @ py_str a)
             \<and> (\<forall>a2. body ''access_token'' = Some a2 \<longrightarrow> a = a2)))"
proof (intro conjI allI impI)
  show "sent w' = sent w @ [refresh_request c rt]"
    using load_headers_refresh_sent [OF assms(1-3), of c filepath] assms(4) by simp
next
  fix h assume "res = Inr h"
  with assms(4) have "load_headers c filepath (token, w) = (Inr h, (token', w'))" by simp
  from load_headers_refresh_Inr [OF assms(1-3) this]
  obtain body v n tt a where b:
    "provider w (sent w) (refresh_request c rt) = Some (Some (JObject body))"
    "body ''expires_in'' = Some v" "py_int v = Inr n"
    "token' = token ++ body(''expires_at'' \<mapsto> JInt (int_of_float (clock w (Suc (reads w))) + n))"
    "token' ''token_type'' = Some tt" "token' ''access_token'' = Some a"
    "h ''Authorization'' = Some (py_str tt @ '' '' @ py_str a)"
    by (elim conjE exE) (rule that; assumption)
  have "a = a2" if "body ''access_token'' = Some a2" for a2
    using that b(4) b(6) by (simp add: map_add_def)
  then have n: "\<forall>a2. body ''access_token'' = Some a2 \<longrightarrow> a = a2" by simp
  show "\<exists>body v n tt a.
      provider w (sent w) (refresh_request c rt) = Some (Some (JObject body))
      \<and> body ''expires_in'' = Some v \<and> py_int v = Inr n
      \<and> token' = token ++
           body(''expires_at'' \<mapsto> JInt (int_of_float (clock w (Suc (reads w))) + n))
      \<and> token' ''token_type'' = Some tt \<and> token' ''access_token'' = Some a
      \<and> h ''Authorization'' = Some (py_str tt @ '' '' @ py_str a)
      \<and> (\<forall>a2. body ''access_token'' = Some a2 \<longrightarrow> a = a2)"
    apply (rule exI [of _ body], rule exI [of _ v], rule exI [of _ n])
    apply (rule exI [of _ tt], rule exI [of _ a])
    apply (intro conjI)
    apply (rule b(1), rule b(2), rule b(3), rule b(4), rule b(5), rule b(6), rule b(7), rule n)
    done
qed

theorem load_headers_refreshes_once_past_window_witness:
  "token_expiring 2000 ''expires_at'' = Some (JInt 2000)
   \<and> of_int (2000 - 3600) < clock (world_answering (JObject refresh_body)) (reads (world_answering (JObject refresh_body)))
   \<and> token_expiring 2000 ''refresh_token'' = Some (JStr ''R1'')
   \<and> sent (snd (snd (load_headers ex_constants None (token_expiring 2000, world_answering (JObject refresh_body)))))
       = [refresh_request ex_constants (JStr ''R1'')]
   \<and> (\<exists>h. fst (load_headers ex_constants None (token_expiring 2000, world_answering (JObject refresh_body))) = Inr h
        \<and> h ''Authorization'' = Some ''Bearer A2'')"
proof -
  let ?w = "world_answering (JObject refresh_body)"
  obtain h t' w' where l: "load_headers ex_constants None (token_expiring 2000, ?w) = (Inr h, (t', w'))"
    using load_headers_scenario [of None] by blast
  have n: "of_int (2000 - 3600) < clock ?w (reads ?w)"
    by (simp add: world_answering_simps)
  note main = load_headers_refreshes_once_past_window [OF token_expiring_lookups(1) n token_expiring_lookups(2) l]
  from main have s: "sent w' = [refresh_request ex_constants (JStr ''R1'')]"
    by (simp add: world_answering_simps)
  from main have "\<exists>body v n tt a.
      provider ?w (sent ?w) (refresh_request ex_constants (JStr ''R1'')) = Some (Some (JObject body))
      \<and> body ''expires_in'' = Some v \<and> py_int v = Inr n
      \<and> t' = token_expiring 2000 ++
           body(''expires_at'' \<mapsto> JInt (int_of_float (clock ?w (Suc (reads ?w))) + n))
      \<and> t' ''token_type'' = Some tt \<and> t' ''access_token'' = Some a
      \<and> h ''Authorization'' = Some (py_str tt @ '' '' @ py_str a)
      \<and> (\<forall>a2. body ''access_token'' = Some a2 \<longrightarrow> a = a2)"
    by simp
  then obtain body k tt a where b:
    "provider ?w (sent ?w) (refresh_request ex_constants (JStr ''R1'')) = Some (Some (JObject body))"
    "t' = token_expiring 2000 ++ body(''expires_at'' \<mapsto> JInt (int_of_float (clock ?w (Suc (reads ?w))) + k))"
    "t' ''token_type'' = Some tt" "t' ''access_token'' = Some a"
    "h ''Authorization'' = Some (py_str tt @ '' '' @ py_str a)"
    "\<forall>a2. body ''access_token'' = Some a2 \<longrightarrow> a = a2"
    by (elim conjE exE) (rule that; assumption)
  from b(1) have body: "body = refresh_body" by (simp add: world_answering_simps)
  from b(6) body have a: "a = JStr ''A2''" by (simp add: refresh_body_lookups)
  from b(2,3) body have tt: "tt = JStr ''Bearer''"
    by (simp add: map_add_def refresh_body_lookups)
  from b(5) a tt have "h ''Authorization'' = Some ''Bearer A2''" by simp
  with l s n show ?thesis by (simp add: token_expiring_lookups)
qed

text \<open>
  Claim C2. For every token record and location, if the refresh call inside
  \<open>load_headers\<close> fails, \<open>load_headers\<close> fails with the same error and returns no
  headers; the caller's record is as it was and nothing is written to the file system.
\<close>

theorem load_headers_aborts_when_refresh_fails:
  assumes "token ''expires_at'' = Some (JInt expires_at)"
    and "of_int (expires_at - 3600) < clock w (reads w)"
    and "token ''refresh_token'' = Some rt"
    and "fst (refresh_token c rt (w\<lparr>reads := Suc (reads w)\<rparr>)) = Inl err"
  shows "fst (load_headers c filepath (token, w)) = Inl err
     \<and> fst (snd (load_headers c filepath (token, w))) = token
     \<and> files (snd (snd (load_headers c filepath (token, w)))) = files w"
proof -
  obtain r w2 where rw: "refresh_token c rt (w\<lparr>reads := Suc (reads w)\<rparr>) = (r, w2)"
    by (cases "refresh_token c rt (w\<lparr>reads := Suc (reads w)\<rparr>)")
  with assms(4) have r: "r = Inl err" by simp
  have "files w2 = files w"
    using refresh_token_frame [of c rt "w\<lparr>reads := Suc (reads w)\<rparr>"] rw by simp
  moreover have "load_headers c filepath (token, w) = (Inl err, (token, w2))"
    using load_headers_refresh_fails [OF assms(1-3)] rw r by simp
  ultimately show ?thesis by simp
qed

theorem load_headers_aborts_when_refresh_fails_witness:
  "token_expiring 2000 ''expires_at'' = Some (JInt 2000)
   \<and> of_int (2000 - 3600) < clock (world_answering (JObject pending_body))
        (reads (world_answering (JObject pending_body)))
   \<and> token_expiring 2000 ''refresh_token'' = Some (JStr ''R1'')
   \<and> fst (refresh_token ex_constants (JStr ''R1'')
        ((world_answering (JObject pending_body))
           \<lparr>reads := Suc (reads (world_answering (JObject pending_body)))\<rparr>))
       = Inl (KeyError ''expires_in'')
   \<and> fst (load_headers ex_constants (Some ''oauth.json'')
        (token_expiring 2000, world_answering (JObject pending_body)))
       = Inl (KeyError ''expires_in'')
   \<and> fst (snd (load_headers ex_constants (Some ''oauth.json'')
        (token_expiring 2000, world_answering (JObject pending_body)))) = token_expiring 2000
   \<and> files (snd (snd (load_headers ex_constants (Some ''oauth.json'')
        (token_expiring 2000, world_answering (JObject pending_body))))) = Map.empty"
proof -
  let ?w = "world_answering (JObject pending_body)"
  have r: "fst (refresh_token ex_constants (JStr ''R1'') (?w\<lparr>reads := Suc (reads ?w)\<rparr>))
      = Inl (KeyError ''expires_in'')"
    by (simp add: refresh_token_eq parse_token_def response_json_def io_defs
        world_answering_simps pending_body_lookups)
  have n: "of_int (2000 - 3600) < clock ?w (reads ?w)"
    by (simp add: world_answering_simps)
  from load_headers_aborts_when_refresh_fails
    [OF token_expiring_lookups(1) n token_expiring_lookups(2) r, of "Some ''oauth.json''"] r n
  show ?thesis by (simp add: token_expiring_lookups world_answering_simps)
qed

text \<open>
  Claim C4. For every token record with refresh token \<open>R\<close> whose refresh is answered by
  a token body without a \<open>refresh_token\<close> field, the record \<open>load_headers\<close> leaves
  with the caller is the old record overwritten by the body and its new \<open>expires_at\<close>,
  and its refresh token is still \<open>R\<close>. In the scenario with the clock at 1000, the
  response \<open>{access_token: "A2", expires_in: 3600, token_type: "Bearer"}\<close> and the
  prior refresh token \<open>"R1"\<close>, the merged record has access token \<open>"A2"\<close>,
  \<open>expires_at\<close> 4600 and refresh token \<open>"R1"\<close>.
\<close>

theorem load_headers_merge_keeps_refresh_token:
  "(token ''expires_at'' = Some (JInt expires_at)
      \<and> of_int (expires_at - 3600) < clock w (reads w)
      \<and> token ''refresh_token'' = Some R
      \<and> provider w (sent w) (refresh_request c R) = Some (Some (JObject body))
      \<and> body ''refresh_token'' = None
      \<and> body ''expires_in'' = Some v \<and> py_int v = Inr n
    \<longrightarrow> fst (snd (load_headers c filepath (token, w)))
          = token ++ body(''expires_at'' \<mapsto> JInt (int_of_float (clock w (Suc (reads w))) + n))
        \<and> fst (snd (load_headers c filepath (token, w))) ''refresh_token'' = Some R)
   \<and> fst (snd (load_headers c filepath
          (token_expiring 2000, world_answering (JObject refresh_body)))) ''access_token''
       = Some (JStr ''A2'')
   \<and> fst (snd (load_headers c filepath
          (token_expiring 2000, world_answering (JObject refresh_body)))) ''expires_at''
       = Some (JInt 4600)
   \<and> fst (snd (load_headers c filepath
          (token_expiring 2000, world_answering (JObject refresh_body)))) ''refresh_token''
       = Some (JStr ''R1'')"
proof -
  have general: "fst (snd (load_headers c filepath (token, w)))
          = token ++ body(''expires_at'' \<mapsto> JInt (int_of_float (clock w (Suc (reads w))) + n))
        \<and> fst (snd (load_headers c filepath (token, w))) ''refresh_token'' = Some R"
    if e: "token ''expires_at'' = Some (JInt expires_at)"
      and t: "of_int (expires_at - 3600) < clock w (reads w)"
      and rt: "token ''refresh_token'' = Some R"
      and p: "provider w (sent w) (refresh_request c R) = Some (Some (JObject body))"
      and nr: "body ''refresh_token'' = None"
      and ei: "body ''expires_in'' = Some v" and pi: "py_int v = Inr n"
    for token :: token and expires_at w R body v n
  proof -
    let ?w1 = "w\<lparr>reads := Suc (reads w)\<rparr>"
    let ?new = "body(''expires_at'' \<mapsto> JInt (int_of_float (clock w (Suc (reads w))) + n))"
    have r: "refresh_token c R ?w1 =
        (Inr ?new, ?w1\<lparr>sent := sent ?w1 @ [refresh_request c R], reads := Suc (reads ?w1)\<rparr>)"
      using p parse_token_accepts [of body v n, OF ei pi]
      by (simp add: refresh_token_eq)
    have m: "fst (snd (load_headers c filepath (token, w))) = token ++ ?new"
      using load_headers_refresh_ok [OF e t rt r, of filepath]
      by (simp del: map_add_None map_add_eq_empty_iff
          split: prod.splits sum.splits option.splits)
    have "(token ++ ?new) ''refresh_token'' = Some R"
      using rt nr by (simp add: map_add_def)
    with m show ?thesis by simp
  qed
  let ?w = "world_answering (JObject refresh_body)"
  have n: "of_int (2000 - 3600) < clock ?w (reads ?w)"
    by (simp add: world_answering_simps)
  have p: "provider ?w (sent ?w) (refresh_request c (JStr ''R1'')) = Some (Some (JObject refresh_body))"
    by (simp add: world_answering_simps)
  have pi: "py_int (JInt 3600) = Inr 3600" by simp
  from general [OF token_expiring_lookups(1) n token_expiring_lookups(2) p
      refresh_body_lookups(4) refresh_body_lookups(1) pi]
  have s: "fst (snd (load_headers c filepath (token_expiring 2000, ?w)))
      = token_expiring 2000 ++ refresh_body(''expires_at'' \<mapsto> JInt 4600)"
    by (simp add: world_answering_simps int_of_float_def)
  have l: "(token_expiring 2000 ++ refresh_body(''expires_at'' \<mapsto> JInt 4600)) ''access_token''
      = Some (JStr ''A2'')"
    "(token_expiring 2000 ++ refresh_body(''expires_at'' \<mapsto> JInt 4600)) ''expires_at''
      = Some (JInt 4600)"
    "(token_expiring 2000 ++ refresh_body(''expires_at'' \<mapsto> JInt 4600)) ''refresh_token''
      = Some (JStr ''R1'')"
    by (simp_all add: map_add_def refresh_body_lookups token_expiring_lookups)
  have g: "token ''expires_at'' = Some (JInt expires_at)
      \<and> of_int (expires_at - 3600) < clock w (reads w)
      \<and> token ''refresh_token'' = Some R
      \<and> provider w (sent w) (refresh_request c R) = Some (Some (JObject body))
      \<and> body ''refresh_token'' = None
      \<and> body ''expires_in'' = Some v \<and> py_int v = Inr n
    \<longrightarrow> fst (snd (load_headers c filepath (token, w)))
          = token ++ body(''expires_at'' \<mapsto> JInt (int_of_float (clock w (Suc (reads w))) + n))
        \<and> fst (snd (load_headers c filepath (token, w))) ''refresh_token'' = Some R"
    by (intro impI, elim conjE) (rule general; assumption)
  have a1: "fst (snd (load_headers c filepath (token_expiring 2000, ?w))) ''access_token''
      = Some (JStr ''A2'')"
    and a2: "fst (snd (load_headers c filepath (token_expiring 2000, ?w))) ''expires_at''
      = Some (JInt 4600)"
    and a3: "fst (snd (load_headers c filepath (token_expiring 2000, ?w))) ''refresh_token''
      = Some (JStr ''R1'')"
    unfolding s by (rule l)+
  show ?thesis
    by (intro conjI) (rule g, rule a1, rule a2, rule a3)
qed


theorem load_headers_merge_keeps_refresh_token_witness:
  "token_expiring 2000 ''expires_at'' = Some (JInt 2000)
   \<and> of_int (2000 - 3600) < clock (world_answering (JObject refresh_body))
        (reads (world_answering (JObject refresh_body)))
   \<and> token_expiring 2000 ''refresh_token'' = Some (JStr ''R1'')
   \<and> provider (world_answering (JObject refresh_body))
        (sent (world_answering (JObject refresh_body)))
        (refresh_request ex_constants (JStr ''R1'')) = Some (Some (JObject refresh_body))
   \<and> refresh_body ''refresh_token'' = None
   \<and> refresh_body ''expires_in'' = Some (JInt 3600)
   \<and> py_int (JInt 3600) = Inr 3600
   \<and> fst (snd (load_headers ex_constants (Some ''oauth.json'')
        (token_expiring 2000, world_answering (JObject refresh_body))))
       = token_expiring 2000 ++ refresh_body(''expires_at'' \<mapsto> JInt 4600)
   \<and> fst (snd (load_headers ex_constants (Some ''oauth.json'')
        (token_expiring 2000, world_answering (JObject refresh_body)))) ''refresh_token''
       = Some (JStr ''R1'')"
proof -
  let ?w = "world_answering (JObject refresh_body)"
  have n: "of_int (2000 - 3600) < clock ?w (reads ?w)"
    by (simp add: world_answering_simps)
  have p: "provider ?w (sent ?w) (refresh_request ex_constants (JStr ''R1''))
      = Some (Some (JObject refresh_body))"
    by (simp add: world_answering_simps)
  have pi: "py_int (JInt 3600) = Inr 3600" by simp
  have now: "int_of_float (clock ?w (Suc (reads ?w))) + 3600 = 4600"
    by (simp add: world_answering_simps int_of_float_def)
  note hyps = token_expiring_lookups(1) [of 2000] n token_expiring_lookups(2) [of 2000] p
    refresh_body_lookups(4) refresh_body_lookups(1) pi
  have h: "token_expiring 2000 ''expires_at'' = Some (JInt 2000)
      \<and> of_int (2000 - 3600) < clock ?w (reads ?w)
      \<and> token_expiring 2000 ''refresh_token'' = Some (JStr ''R1'')
      \<and> provider ?w (sent ?w) (refresh_request ex_constants (JStr ''R1''))
          = Some (Some (JObject refresh_body))
      \<and> refresh_body ''refresh_token'' = None
      \<and> refresh_body ''expires_in'' = Some (JInt 3600) \<and> py_int (JInt 3600) = Inr 3600"
    by (intro conjI) (rule hyps)+
  from load_headers_merge_keeps_refresh_token
    [where token = "token_expiring 2000" and expires_at = 2000 and w = ?w
      and R = "JStr ''R1''" and c = ex_constants and body = refresh_body
      and v = "JInt 3600" and n = 3600 and filepath = "Some ''oauth.json''",
      THEN conjunct1, THEN mp, OF h]
  have m: "fst (snd (load_headers ex_constants (Some ''oauth.json'') (token_expiring 2000, ?w)))
       = token_expiring 2000 ++ refresh_body(''expires_at'' \<mapsto> JInt 4600)
     \<and> fst (snd (load_headers ex_constants (Some ''oauth.json'') (token_expiring 2000, ?w)))
         ''refresh_token'' = Some (JStr ''R1'')"
    unfolding now .
  show ?thesis
    by (intro conjI) (rule hyps m [THEN conjunct1] m [THEN conjunct2])+
qed

subsection \<open>Recognising OAuth headers\<close>










end
